theory Spec2Isabelle
  imports Main "HOL-Library.Char_ord" "HOL-Library.List_Lexorder"
begin

section \<open>Text normalisation\<close>

text \<open>
  Python strings are modelled as \<open>string\<close>, one \<open>char\<close> per code point (code points
  below 256). \<open>isspace\<close> is Python's \<^verbatim>\<open>str.isspace\<close> on one such character and
  \<open>strip\<close> is \<^verbatim>\<open>str.strip()\<close> without arguments.
\<close>

definition isspace :: "char \<Rightarrow> bool" where
  "isspace c = (of_char c \<in> {9, 10, 11, 12, 13, 28, 29, 30, 31, 32, 133, 160 :: nat})"

definition strip :: "string \<Rightarrow> string" where
  "strip s = rev (dropWhile isspace (rev (dropWhile isspace s)))"

text \<open>
  The expression \<^verbatim>\<open>(v or '').strip() or None\<close> of \<^verbatim>\<open>create_city\<close>,
  \<^verbatim>\<open>update_city\<close>, \<^verbatim>\<open>create_police_station\<close> and \<^verbatim>\<open>update_police_station\<close>:
  \<^verbatim>\<open>None\<close> and the empty string are falsy.
\<close>

definition or_empty :: "string option \<Rightarrow> string" where
  "or_empty v = (case v of None \<Rightarrow> [] | Some x \<Rightarrow> x)"

definition or_None :: "string \<Rightarrow> string option" where
  "or_None x = (if x = [] then None else Some x)"

definition strip_or_None :: "string option \<Rightarrow> string option" where
  "strip_or_None v = or_None (strip (or_empty v))"

text \<open>Truthiness of an \<^verbatim>\<open>Optional[int]\<close>, as tested by \<^verbatim>\<open>if city_id:\<close>.\<close>

definition truthy :: "int option \<Rightarrow> bool" where
  "truthy v = (case v of None \<Rightarrow> False | Some i \<Rightarrow> i \<noteq> 0)"

section \<open>Entities (models.py)\<close>

record City =
  id :: int
  name :: string
  state :: "string option"
  country :: "string option"

record Neighborhood =
  id :: int
  name :: string
  city_id :: int

record Street =
  id :: int
  name :: string
  neighborhood_id :: int

record PoliceStation =
  id :: int
  name :: string
  city_id :: "int option"
  address :: "string option"

text \<open>The four tables of the SQLite file, each in rowid order.\<close>

record database =
  cities :: "City list"
  neighborhoods :: "Neighborhood list"
  streets :: "Street list"
  police_stations :: "PoliceStation list"

section \<open>Failures\<close>

text \<open>
  \<open>IntegrityError\<close> is SQLAlchemy's wrapper of the SQLite constraint failure; it carries
  which constraint failed. \<open>OperationalError\<close> stands for any other storage failure, and
  \<open>KeyboardInterrupt\<close> for the exceptions that do not derive from \<^verbatim>\<open>Exception\<close>.
\<close>

datatype constraint_failure = UNIQUE_failed string | FOREIGN_KEY_failed

datatype exn =
    ValueError string
  | IntegrityError constraint_failure
  | DuplicateError string
  | OperationalError string
  | KeyboardInterrupt

fun is_Exception :: "exn \<Rightarrow> bool" where
  "is_Exception KeyboardInterrupt = False"
| "is_Exception _ = True"

fun is_IntegrityError :: "exn \<Rightarrow> bool" where
  "is_IntegrityError (IntegrityError _) = True"
| "is_IntegrityError _ = False"

fun sqlite_message :: "constraint_failure \<Rightarrow> string" where
  "sqlite_message (UNIQUE_failed cols) = ''UNIQUE constraint failed: '' @ cols"
| "sqlite_message FOREIGN_KEY_failed = ''FOREIGN KEY constraint failed''"

text \<open>Python's \<^verbatim>\<open>str(e)\<close>, without the SQL statement SQLAlchemy appends.\<close>

fun str_exn :: "exn \<Rightarrow> string" where
  "str_exn (ValueError msg) = msg"
| "str_exn (IntegrityError f) = ''(sqlite3.IntegrityError) '' @ sqlite_message f"
| "str_exn (DuplicateError msg) = msg"
| "str_exn (OperationalError msg) = ''(sqlite3.OperationalError) '' @ msg"
| "str_exn KeyboardInterrupt = []"

section \<open>The SQLite statements the session emits\<close>

text \<open>
  Every \<^verbatim>\<open>id\<close> column is \<^verbatim>\<open>Column(Integer, primary_key=True)\<close> on SQLite (db.py:
  \<^verbatim>\<open>sqlite:///./pms.db\<close>), that is an \<^verbatim>\<open>INTEGER PRIMARY KEY\<close> without
  \<^verbatim>\<open>AUTOINCREMENT\<close>: an insert that gives no id takes one more than the largest id
  in the table, and 1 in an empty table.
\<close>

definition next_rowid :: "int list \<Rightarrow> int" where
  "next_rowid ids = (case ids of [] \<Rightarrow> 1 | x # xs \<Rightarrow> fold max xs x + 1)"

text \<open>
  The uniqueness constraints of models.py. SQLite compares a NULL as different from
  every value, itself included, so a row with a NULL in a constrained column never
  collides. \<open>self\<close> is the id of the row an UPDATE rewrites.
\<close>

definition uq_city_name_state_country ::
  "database \<Rightarrow> int option \<Rightarrow> string \<Rightarrow> string option \<Rightarrow> string option \<Rightarrow> bool" where
  "uq_city_name_state_country db self nm st co =
     (\<forall>c \<in> set (cities db).
        Some (City.id c) = self \<or>
        \<not> (City.name c = nm \<and> st \<noteq> None \<and> City.state c = st \<and>
           co \<noteq> None \<and> City.country c = co))"

definition uq_neighborhood_name_city :: "database \<Rightarrow> int option \<Rightarrow> string \<Rightarrow> int \<Rightarrow> bool" where
  "uq_neighborhood_name_city db self nm cid =
     (\<forall>n \<in> set (neighborhoods db).
        Some (Neighborhood.id n) = self \<or>
        \<not> (Neighborhood.name n = nm \<and> Neighborhood.city_id n = cid))"

definition uq_street_name_neighborhood :: "database \<Rightarrow> int option \<Rightarrow> string \<Rightarrow> int \<Rightarrow> bool" where
  "uq_street_name_neighborhood db self nm nid =
     (\<forall>t \<in> set (streets db).
        Some (Street.id t) = self \<or>
        \<not> (Street.name t = nm \<and> Street.neighborhood_id t = nid))"

definition uq_police_station_name_city ::
  "database \<Rightarrow> int option \<Rightarrow> string \<Rightarrow> int option \<Rightarrow> bool" where
  "uq_police_station_name_city db self nm cid =
     (\<forall>p \<in> set (police_stations db).
        Some (PoliceStation.id p) = self \<or>
        \<not> (PoliceStation.name p = nm \<and> cid \<noteq> None \<and> PoliceStation.city_id p = cid))"

text \<open>
  The foreign keys, enforced because db.py sets \<^verbatim>\<open>PRAGMA foreign_keys=ON\<close>. SQLite
  reports a uniqueness failure while it writes the row and a foreign-key failure at the
  end of the statement, so uniqueness is tested first.
\<close>

definition fk_city :: "database \<Rightarrow> int \<Rightarrow> bool" where
  "fk_city db cid = (cid \<in> City.id ` set (cities db))"

definition fk_neighborhood :: "database \<Rightarrow> int \<Rightarrow> bool" where
  "fk_neighborhood db nid = (nid \<in> Neighborhood.id ` set (neighborhoods db))"

definition fk_city_opt :: "database \<Rightarrow> int option \<Rightarrow> bool" where
  "fk_city_opt db cid = (case cid of None \<Rightarrow> True | Some i \<Rightarrow> fk_city db i)"

definition insert_city ::
  "database \<Rightarrow> string \<Rightarrow> string option \<Rightarrow> string option \<Rightarrow> exn + City \<times> database" where
  "insert_city db nm st co =
     (if \<not> uq_city_name_state_country db None nm st co
      then Inl (IntegrityError (UNIQUE_failed ''cities.name, cities.state, cities.country''))
      else
        let city = \<lparr>City.id = next_rowid (map City.id (cities db)),
                    name = nm, state = st, country = co\<rparr>
        in Inr (city, db\<lparr>cities := cities db @ [city]\<rparr>))"

definition insert_neighborhood ::
  "database \<Rightarrow> string \<Rightarrow> int \<Rightarrow> exn + Neighborhood \<times> database" where
  "insert_neighborhood db nm cid =
     (if \<not> uq_neighborhood_name_city db None nm cid
      then Inl (IntegrityError (UNIQUE_failed ''neighborhoods.name, neighborhoods.city_id''))
      else if \<not> fk_city db cid then Inl (IntegrityError FOREIGN_KEY_failed)
      else
        let nb = \<lparr>Neighborhood.id = next_rowid (map Neighborhood.id (neighborhoods db)),
                  name = nm, city_id = cid\<rparr>
        in Inr (nb, db\<lparr>neighborhoods := neighborhoods db @ [nb]\<rparr>))"

definition insert_street ::
  "database \<Rightarrow> string \<Rightarrow> int \<Rightarrow> exn + Street \<times> database" where
  "insert_street db nm nid =
     (if \<not> uq_street_name_neighborhood db None nm nid
      then Inl (IntegrityError (UNIQUE_failed ''streets.name, streets.neighborhood_id''))
      else if \<not> fk_neighborhood db nid then Inl (IntegrityError FOREIGN_KEY_failed)
      else
        let st = \<lparr>Street.id = next_rowid (map Street.id (streets db)),
                  name = nm, neighborhood_id = nid\<rparr>
        in Inr (st, db\<lparr>streets := streets db @ [st]\<rparr>))"

definition insert_police_station ::
  "database \<Rightarrow> string \<Rightarrow> int option \<Rightarrow> string option \<Rightarrow> exn + PoliceStation \<times> database" where
  "insert_police_station db nm cid addr =
     (if \<not> uq_police_station_name_city db None nm cid
      then Inl (IntegrityError (UNIQUE_failed ''police_stations.name, police_stations.city_id''))
      else if \<not> fk_city_opt db cid then Inl (IntegrityError FOREIGN_KEY_failed)
      else
        let ps = \<lparr>PoliceStation.id = next_rowid (map PoliceStation.id (police_stations db)),
                  name = nm, city_id = cid, address = addr\<rparr>
        in Inr (ps, db\<lparr>police_stations := police_stations db @ [ps]\<rparr>))"

text \<open>UPDATE ... WHERE id = ?, the row given with its new field values.\<close>

definition update_city_row :: "database \<Rightarrow> City \<Rightarrow> exn + City \<times> database" where
  "update_city_row db c =
     (if \<not> uq_city_name_state_country db (Some (City.id c))
             (City.name c) (City.state c) (City.country c)
      then Inl (IntegrityError (UNIQUE_failed ''cities.name, cities.state, cities.country''))
      else Inr (c, db\<lparr>cities := map (\<lambda>x. if City.id x = City.id c then c else x) (cities db)\<rparr>))"

definition update_neighborhood_row ::
  "database \<Rightarrow> Neighborhood \<Rightarrow> exn + Neighborhood \<times> database" where
  "update_neighborhood_row db n =
     (if \<not> uq_neighborhood_name_city db (Some (Neighborhood.id n))
             (Neighborhood.name n) (Neighborhood.city_id n)
      then Inl (IntegrityError (UNIQUE_failed ''neighborhoods.name, neighborhoods.city_id''))
      else if \<not> fk_city db (Neighborhood.city_id n) then Inl (IntegrityError FOREIGN_KEY_failed)
      else Inr (n, db\<lparr>neighborhoods :=
                  map (\<lambda>x. if Neighborhood.id x = Neighborhood.id n then n else x)
                    (neighborhoods db)\<rparr>))"

definition update_street_row :: "database \<Rightarrow> Street \<Rightarrow> exn + Street \<times> database" where
  "update_street_row db t =
     (if \<not> uq_street_name_neighborhood db (Some (Street.id t))
             (Street.name t) (Street.neighborhood_id t)
      then Inl (IntegrityError (UNIQUE_failed ''streets.name, streets.neighborhood_id''))
      else if \<not> fk_neighborhood db (Street.neighborhood_id t)
      then Inl (IntegrityError FOREIGN_KEY_failed)
      else Inr (t, db\<lparr>streets :=
                  map (\<lambda>x. if Street.id x = Street.id t then t else x) (streets db)\<rparr>))"

definition update_police_station_row ::
  "database \<Rightarrow> PoliceStation \<Rightarrow> exn + PoliceStation \<times> database" where
  "update_police_station_row db p =
     (if \<not> uq_police_station_name_city db (Some (PoliceStation.id p))
             (PoliceStation.name p) (PoliceStation.city_id p)
      then Inl (IntegrityError (UNIQUE_failed ''police_stations.name, police_stations.city_id''))
      else if \<not> fk_city_opt db (PoliceStation.city_id p)
      then Inl (IntegrityError FOREIGN_KEY_failed)
      else Inr (p, db\<lparr>police_stations :=
                  map (\<lambda>x. if PoliceStation.id x = PoliceStation.id p then p else x)
                    (police_stations db)\<rparr>))"

text \<open>
  DELETE ... WHERE id IN ids, with the \<^verbatim>\<open>ondelete\<close> action of each foreign key that
  points at the deleted rows: \<^verbatim>\<open>CASCADE\<close> for \<^verbatim>\<open>streets.neighborhood_id\<close> and
  \<^verbatim>\<open>neighborhoods.city_id\<close>, \<^verbatim>\<open>SET NULL\<close> for \<^verbatim>\<open>police_stations.city_id\<close>.
\<close>

definition delete_street_rows :: "int list \<Rightarrow> database \<Rightarrow> database" where
  "delete_street_rows ids db =
     db\<lparr>streets := filter (\<lambda>t. Street.id t \<notin> set ids) (streets db)\<rparr>"

definition delete_neighborhood_rows :: "int list \<Rightarrow> database \<Rightarrow> database" where
  "delete_neighborhood_rows ids db =
     (let gone = filter (\<lambda>i. i \<in> set ids) (map Neighborhood.id (neighborhoods db))
      in db\<lparr>neighborhoods := filter (\<lambda>n. Neighborhood.id n \<notin> set ids) (neighborhoods db),
            streets := filter (\<lambda>t. Street.neighborhood_id t \<notin> set gone) (streets db)\<rparr>)"

definition delete_police_station_rows :: "int list \<Rightarrow> database \<Rightarrow> database" where
  "delete_police_station_rows ids db =
     db\<lparr>police_stations := filter (\<lambda>p. PoliceStation.id p \<notin> set ids) (police_stations db)\<rparr>"

definition delete_city_rows :: "int list \<Rightarrow> database \<Rightarrow> database" where
  "delete_city_rows ids db =
     (let gone = filter (\<lambda>i. i \<in> set ids) (map City.id (cities db));
          orphans = map Neighborhood.id
                      (filter (\<lambda>n. Neighborhood.city_id n \<in> set gone) (neighborhoods db));
          db1 = delete_neighborhood_rows orphans db
      in db1\<lparr>cities := filter (\<lambda>c. City.id c \<notin> set ids) (cities db1),
             police_stations :=
               map (\<lambda>p. if PoliceStation.city_id p \<in> Some ` set gone
                        then p\<lparr>PoliceStation.city_id := None\<rparr> else p)
                 (police_stations db1)\<rparr>)"

section \<open>The session (db.py, sqlalchemy.orm.Session)\<close>

text \<open>
  A session is one transaction on the database file. \<open>rows\<close> is what the transaction
  sees (the file plus the statements flushed so far), \<open>committed\<close> is the file itself,
  \<open>deleted\<close> holds the ids of the objects \<^verbatim>\<open>session.delete\<close> has marked and no flush
  has yet written (\<^verbatim>\<open>SessionLocal\<close> is made with \<^verbatim>\<open>autoflush=False\<close>), and
  \<open>fault\<close> is the failure the storage engine will report at the next commit, if any.
  \<open>trace\<close> records the calls of \<^verbatim>\<open>commit\<close>, \<^verbatim>\<open>rollback\<close> and \<^verbatim>\<open>close\<close>.
\<close>

datatype event = Commit | Rollback | Close

record deleted_marks =
  del_cities :: "int list"
  del_neighborhoods :: "int list"
  del_streets :: "int list"
  del_police_stations :: "int list"

definition no_marks :: deleted_marks where
  "no_marks = \<lparr>del_cities = [], del_neighborhoods = [], del_streets = [],
               del_police_stations = []\<rparr>"

record session =
  rows :: database
  committed :: database
  deleted :: deleted_marks
  fault :: "exn option"
  closed :: bool
  trace :: "event list"

definition SessionLocal :: "database \<Rightarrow> exn option \<Rightarrow> session" where
  "SessionLocal db f =
     \<lparr>rows = db, committed = db, deleted = no_marks, fault = f, closed = False, trace = []\<rparr>"

text \<open>\<^verbatim>\<open>session.get(Model, id)\<close>: the object with that primary key, or \<^verbatim>\<open>None\<close>.\<close>

definition session_get_city :: "session \<Rightarrow> int \<Rightarrow> City option" where
  "session_get_city s i = find (\<lambda>c. City.id c = i) (cities (rows s))"

definition session_get_neighborhood :: "session \<Rightarrow> int \<Rightarrow> Neighborhood option" where
  "session_get_neighborhood s i = find (\<lambda>n. Neighborhood.id n = i) (neighborhoods (rows s))"

definition session_get_street :: "session \<Rightarrow> int \<Rightarrow> Street option" where
  "session_get_street s i = find (\<lambda>t. Street.id t = i) (streets (rows s))"

definition session_get_police_station :: "session \<Rightarrow> int \<Rightarrow> PoliceStation option" where
  "session_get_police_station s i =
     find (\<lambda>p. PoliceStation.id p = i) (police_stations (rows s))"




definition session_delete_city :: "session \<Rightarrow> City \<Rightarrow> session" where
  "session_delete_city s c =
     (let nbs = filter (\<lambda>n. Neighborhood.city_id n = City.id c) (neighborhoods (rows s));
          sts = filter (\<lambda>t. Street.neighborhood_id t \<in> Neighborhood.id ` set nbs)
                  (streets (rows s));
          pss = filter (\<lambda>p. PoliceStation.city_id p = Some (City.id c))
                  (police_stations (rows s))
      in s\<lparr>deleted := (deleted s)
             \<lparr>del_cities := City.id c # del_cities (deleted s),
              del_neighborhoods := map Neighborhood.id nbs @ del_neighborhoods (deleted s),
              del_streets := map Street.id sts @ del_streets (deleted s),
              del_police_stations :=
                map PoliceStation.id pss @ del_police_stations (deleted s)\<rparr>\<rparr>)"

text \<open>
  \<^verbatim>\<open>session.expunge(obj)\<close> takes the object out of the session, and with it its
  pending deletion; it follows the cascade to the related objects already loaded, which
  are those a \<^verbatim>\<open>session.delete\<close> of this object has loaded.
\<close>

definition unmark :: "int list \<Rightarrow> int list \<Rightarrow> int list" where
  "unmark ids marks = filter (\<lambda>i. i \<notin> set ids) marks"

definition expunge_street :: "session \<Rightarrow> Street \<Rightarrow> session" where
  "expunge_street s t =
     s\<lparr>deleted := (deleted s)\<lparr>del_streets := unmark [Street.id t] (del_streets (deleted s))\<rparr>\<rparr>"

definition expunge_police_station :: "session \<Rightarrow> PoliceStation \<Rightarrow> session" where
  "expunge_police_station s p =
     s\<lparr>deleted := (deleted s)\<lparr>del_police_stations :=
         unmark [PoliceStation.id p] (del_police_stations (deleted s))\<rparr>\<rparr>"

definition expunge_neighborhood :: "session \<Rightarrow> Neighborhood \<Rightarrow> session" where
  "expunge_neighborhood s n =
     (if Neighborhood.id n \<in> set (del_neighborhoods (deleted s)) then
        let sts = filter (\<lambda>t. Street.neighborhood_id t = Neighborhood.id n) (streets (rows s))
        in s\<lparr>deleted := (deleted s)
               \<lparr>del_neighborhoods := unmark [Neighborhood.id n] (del_neighborhoods (deleted s)),
                del_streets := unmark (map Street.id sts) (del_streets (deleted s))\<rparr>\<rparr>
      else s)"


text \<open>
  A flush writes the pending deletions, children before parents. \<open>session_flush\<close> is
  \<^verbatim>\<open>session.flush()\<close> with one new or modified object: its INSERT or UPDATE \<open>w\<close>
  runs first. A statement that fails raises, and SQLAlchemy rolls the transaction back.
\<close>

definition flush_deletes :: "session \<Rightarrow> session" where
  "flush_deletes s =
     s\<lparr>rows :=
         delete_city_rows (del_cities (deleted s))
           (delete_police_station_rows (del_police_stations (deleted s))
              (delete_neighborhood_rows (del_neighborhoods (deleted s))
                 (delete_street_rows (del_streets (deleted s)) (rows s)))),
       deleted := no_marks\<rparr>"

definition session_flush ::
  "session \<Rightarrow> (database \<Rightarrow> exn + 'a \<times> database) \<Rightarrow> (exn + 'a) \<times> session" where
  "session_flush s w =
     (case w (rows s) of
        Inl e \<Rightarrow> (Inl e, s\<lparr>rows := committed s\<rparr>)
      | Inr (obj, db) \<Rightarrow> (Inr obj, flush_deletes (s\<lparr>rows := db\<rparr>)))"

definition session_commit :: "session \<Rightarrow> exn option \<times> session" where
  "session_commit s =
     (case fault s of
        Some e \<Rightarrow> (Some e, s)
      | None \<Rightarrow>
          let s1 = flush_deletes s
          in (None, s1\<lparr>committed := rows s1, trace := trace s1 @ [Commit]\<rparr>))"

definition session_rollback :: "session \<Rightarrow> session" where
  "session_rollback s =
     s\<lparr>rows := committed s, deleted := no_marks, trace := trace s @ [Rollback]\<rparr>"

definition session_close :: "session \<Rightarrow> session" where
  "session_close s =
     s\<lparr>rows := committed s, deleted := no_marks, closed := True, trace := trace s @ [Close]\<rparr>"

section \<open>repository.py\<close>

text \<open>
  \<^verbatim>\<open>get_session\<close> wraps the \<^verbatim>\<open>with\<close> block \<open>body\<close>; the database file and the
  storage fault stand for the module-level engine. A \<^verbatim>\<open>return\<close> inside the block
  resumes the generator after its \<^verbatim>\<open>yield\<close> as a normal end of the block does, so
  it is the \<open>Inr\<close> case. \<^verbatim>\<open>except Exception\<close> does not catch a
  \<^verbatim>\<open>KeyboardInterrupt\<close>; \<^verbatim>\<open>finally\<close> runs on every path. \<^verbatim>\<open>rollback\<close>
  and \<^verbatim>\<open>close\<close> are taken not to fail.
\<close>

definition get_session ::
  "(session \<Rightarrow> (exn + 'a) \<times> session) \<Rightarrow> database \<Rightarrow> exn option \<Rightarrow> (exn + 'a) \<times> session" where
  "get_session body db f =
     (let session = SessionLocal db f in
      case body session of
        (Inr v, s1) \<Rightarrow>
          (case session_commit s1 of
             (None, s2) \<Rightarrow> (Inr v, session_close s2)
           | (Some e, s2) \<Rightarrow>
               if is_Exception e then (Inl e, session_close (session_rollback s2))
               else (Inl e, session_close s2))
      | (Inl e, s1) \<Rightarrow>
          if is_Exception e then (Inl e, session_close (session_rollback s1))
          else (Inl e, session_close s1))"

subsection \<open>Cities\<close>


definition create_city ::
  "session \<Rightarrow> string \<Rightarrow> string option \<Rightarrow> string option \<Rightarrow> (exn + City) \<times> session" where
  "create_city session nm st co =
     session_flush session
       (\<lambda>db. insert_city db (strip nm) (strip_or_None st) (strip_or_None co))"

definition update_city ::
  "session \<Rightarrow> int \<Rightarrow> string \<Rightarrow> string option \<Rightarrow> string option \<Rightarrow> (exn + City) \<times> session" where
  "update_city session cid nm st co =
     (case session_get_city session cid of
        None \<Rightarrow> (Inl (ValueError ''City not found''), session)
      | Some city \<Rightarrow>
          session_flush session
            (\<lambda>db. update_city_row db
                    (city\<lparr>City.name := strip nm, City.state := strip_or_None st,
                          City.country := strip_or_None co\<rparr>)))"

definition delete_city :: "session \<Rightarrow> int \<Rightarrow> (exn + unit) \<times> session" where
  "delete_city session cid =
     (case session_get_city session cid of
        None \<Rightarrow> (Inl (ValueError ''City not found''), session)
      | Some city \<Rightarrow> (Inr (), session_delete_city session city))"

subsection \<open>Neighborhoods\<close>

definition list_neighborhoods :: "session \<Rightarrow> int option \<Rightarrow> Neighborhood list \<times> session" where
  "list_neighborhoods session cid =
     (let q = neighborhoods (rows session);
          q = (if truthy cid
               then filter (\<lambda>n. Some (Neighborhood.city_id n) = cid) q else q);
          nbs = sort_key Neighborhood.name q
      in (nbs, fold (\<lambda>nb s. expunge_neighborhood s nb) nbs session))"

definition create_neighborhood ::
  "session \<Rightarrow> string \<Rightarrow> int \<Rightarrow> (exn + Neighborhood) \<times> session" where
  "create_neighborhood session nm cid =
     session_flush session (\<lambda>db. insert_neighborhood db (strip nm) cid)"

definition update_neighborhood ::
  "session \<Rightarrow> int \<Rightarrow> string \<Rightarrow> int \<Rightarrow> (exn + Neighborhood) \<times> session" where
  "update_neighborhood session nb_id nm cid =
     (case session_get_neighborhood session nb_id of
        None \<Rightarrow> (Inl (ValueError ''Neighborhood not found''), session)
      | Some nb \<Rightarrow>
          session_flush session
            (\<lambda>db. update_neighborhood_row db
                    (nb\<lparr>Neighborhood.name := strip nm, Neighborhood.city_id := cid\<rparr>)))"


subsection \<open>Streets\<close>

definition list_streets :: "session \<Rightarrow> int option \<Rightarrow> Street list \<times> session" where
  "list_streets session nid =
     (let q = streets (rows session);
          q = (if truthy nid
               then filter (\<lambda>t. Some (Street.neighborhood_id t) = nid) q else q);
          sts = sort_key Street.name q
      in (sts, fold (\<lambda>st s. expunge_street s st) sts session))"

definition create_street :: "session \<Rightarrow> string \<Rightarrow> int \<Rightarrow> (exn + Street) \<times> session" where
  "create_street session nm nid =
     session_flush session (\<lambda>db. insert_street db (strip nm) nid)"

definition update_street ::
  "session \<Rightarrow> int \<Rightarrow> string \<Rightarrow> int \<Rightarrow> (exn + Street) \<times> session" where
  "update_street session st_id nm nid =
     (case session_get_street session st_id of
        None \<Rightarrow> (Inl (ValueError ''Street not found''), session)
      | Some st \<Rightarrow>
          session_flush session
            (\<lambda>db. update_street_row db
                    (st\<lparr>Street.name := strip nm, Street.neighborhood_id := nid\<rparr>)))"


subsection \<open>Police stations\<close>

definition list_police_stations :: "session \<Rightarrow> int option \<Rightarrow> PoliceStation list \<times> session" where
  "list_police_stations session cid =
     (let q = police_stations (rows session);
          q = (if truthy cid
               then filter (\<lambda>p. PoliceStation.city_id p = cid) q else q);
          pss = sort_key PoliceStation.name q
      in (pss, fold (\<lambda>ps s. expunge_police_station s ps) pss session))"

definition create_police_station ::
  "session \<Rightarrow> string \<Rightarrow> int option \<Rightarrow> string option \<Rightarrow> (exn + PoliceStation) \<times> session" where
  "create_police_station session nm cid addr =
     session_flush session
       (\<lambda>db. insert_police_station db (strip nm) cid (strip_or_None addr))"

definition update_police_station ::
  "session \<Rightarrow> int \<Rightarrow> string \<Rightarrow> int option \<Rightarrow> string option
     \<Rightarrow> (exn + PoliceStation) \<times> session" where
  "update_police_station session ps_id nm cid addr =
     (case session_get_police_station session ps_id of
        None \<Rightarrow> (Inl (ValueError ''Police station not found''), session)
      | Some ps \<Rightarrow>
          session_flush session
            (\<lambda>db. update_police_station_row db
                    (ps\<lparr>PoliceStation.name := strip nm, PoliceStation.city_id := cid,
                        PoliceStation.address := strip_or_None addr\<rparr>)))"


subsection \<open>The integrity translator\<close>

definition commit_with_integrity_handling :: "session \<Rightarrow> (exn + unit) \<times> session" where
  "commit_with_integrity_handling session =
     (case session_commit session of
        (None, s1) \<Rightarrow> (Inr (), s1)
      | (Some e, s1) \<Rightarrow>
          if is_IntegrityError e
          then (Inl (DuplicateError (str_exn e)), session_rollback s1)
          else (Inl e, s1))"

section \<open>Example databases\<close>

definition empty_db :: database where
  "empty_db = \<lparr>cities = [], neighborhoods = [], streets = [], police_stations = []\<rparr>"

definition springfield_db :: database where
  "springfield_db =
     \<lparr>cities = [\<lparr>City.id = 1, name = ''Springfield'', state = Some ''IL'',
                 country = Some ''US''\<rparr>],
      neighborhoods = [\<lparr>Neighborhood.id = 1, name = ''Downtown'', city_id = 1\<rparr>],
      streets = [\<lparr>Street.id = 1, name = ''Main'', neighborhood_id = 1\<rparr>],
      police_stations = [\<lparr>PoliceStation.id = 1, name = ''Central'', city_id = Some 1,
                          address = None\<rparr>]\<rparr>"

section \<open>What a normalised text is\<close>

text \<open>
  A text is trimmed when it neither starts nor ends with whitespace. An optional text is
  normalised when it is absent, or present, not empty and trimmed.
\<close>

definition trimmed :: "string \<Rightarrow> bool" where
  "trimmed t = (t = [] \<or> (\<not> isspace (hd t) \<and> \<not> isspace (last t)))"

definition normalised_optional :: "string option \<Rightarrow> bool" where
  "normalised_optional v = (case v of None \<Rightarrow> True | Some t \<Rightarrow> t \<noteq> [] \<and> trimmed t)"

section \<open>Facts about the statements and the session\<close>

lemma find_Some_holds: "find P xs = Some x \<Longrightarrow> P x \<and> x \<in> set xs"
  by (auto simp: find_Some_iff)

lemma delete_street_rows_Nil: "delete_street_rows [] db = db"
  by (simp add: delete_street_rows_def)

lemma delete_neighborhood_rows_Nil: "delete_neighborhood_rows [] db = db"
  by (simp add: delete_neighborhood_rows_def)

lemma delete_police_station_rows_Nil: "delete_police_station_rows [] db = db"
  by (simp add: delete_police_station_rows_def)

lemma delete_city_rows_Nil: "delete_city_rows [] db = db"
  by (simp add: delete_city_rows_def delete_neighborhood_rows_Nil)

lemma flush_deletes_no_marks: "deleted s = no_marks \<Longrightarrow> flush_deletes s = s"
  by (simp add: flush_deletes_def no_marks_def delete_street_rows_Nil
      delete_neighborhood_rows_Nil delete_police_station_rows_Nil delete_city_rows_Nil)








lemma SessionLocal_fields:
  "committed (SessionLocal db f) = db" "rows (SessionLocal db f) = db"
  "deleted (SessionLocal db f) = no_marks" "fault (SessionLocal db f) = f"
  "closed (SessionLocal db f) = False" "trace (SessionLocal db f) = []"
  by (simp_all add: SessionLocal_def)


lemma get_session_commits:
  "body (SessionLocal db None) = (Inr v, s') \<Longrightarrow> fault s' = None \<Longrightarrow>
   fst (get_session body db None) = Inr v \<and>
   committed (snd (get_session body db None)) = rows (flush_deletes s')"
  by (simp add: get_session_def session_commit_def Let_def session_close_def)

subsection \<open>Normalising the example texts\<close>

lemma strip_Springfield: "strip ''Springfield'' = ''Springfield''"
  by code_simp

lemma strip_or_None_IL_US:
  "strip_or_None (Some ''IL'') = Some ''IL''" "strip_or_None (Some ''US'') = Some ''US''"
  by code_simp+

subsection \<open>A deleted entity is no longer found\<close>





section \<open>Claim C6: update and delete of a missing identity\<close>



section \<open>Claim C3: the unit of work\<close>

text \<open>
  C3. Let the body of the \<^verbatim>\<open>with get_session()\<close> block return \<open>r\<close> and leave the
  session \<open>s1\<close>. On every path the session handed back is closed, \<^verbatim>\<open>close\<close> is the last
  call made on it, and it holds no uncommitted change. When the body ends normally and
  the commit succeeds, the transaction, pending deletions included, becomes the database.
  When the body or the commit raises \<open>e\<close>, the caller gets the same \<open>e\<close> and the
  database stays as it was; a failure that derives from \<^verbatim>\<open>Exception\<close> is followed by
  \<^verbatim>\<open>rollback\<close> and then \<^verbatim>\<open>close\<close>.
\<close>

theorem get_session_contract:
  assumes "body (SessionLocal db f) = (r, s1)" and "get_session body db f = (out, s')"
  shows "closed s' \<and> last (trace s') = Close \<and> rows s' = committed s' \<and>
     deleted s' = no_marks \<and>
     (\<forall>v. r = Inr v \<and> fst (session_commit s1) = None \<longrightarrow>
        out = Inr v \<and> committed s' = rows (flush_deletes s1) \<and>
        trace s' = trace s1 @ [Commit, Close]) \<and>
     (\<forall>v e. r = Inr v \<and> fst (session_commit s1) = Some e \<longrightarrow>
        out = Inl e \<and> committed s' = committed s1 \<and>
        (is_Exception e \<longrightarrow> trace s' = trace s1 @ [Rollback, Close])) \<and>
     (\<forall>e. r = Inl e \<longrightarrow>
        out = Inl e \<and> committed s' = committed s1 \<and>
        (is_Exception e \<longrightarrow> trace s' = trace s1 @ [Rollback, Close]))"
proof (cases r)
  case (Inl e)
  with assms show ?thesis
    by (auto simp add: get_session_def session_close_def session_rollback_def
        split: if_splits)
next
  case (Inr v)
  show ?thesis
  proof (cases "fault s1")
    case None
    with Inr assms show ?thesis
      by (auto simp add: get_session_def session_close_def session_commit_def Let_def
          flush_deletes_def)
  next
    case (Some e)
    with Inr assms show ?thesis
      by (auto simp add: get_session_def session_close_def session_rollback_def
          session_commit_def split: if_splits)
  qed
qed

theorem get_session_contract_witness:
  "get_session (\<lambda>s. create_city s ''Springfield'' (Some ''IL'') (Some ''US''))
     springfield_db None =
     (Inl (IntegrityError (UNIQUE_failed ''cities.name, cities.state, cities.country'')),
      (SessionLocal springfield_db None)\<lparr>closed := True, trace := [Rollback, Close]\<rparr>) \<and>
   fst (get_session (\<lambda>s. delete_city s 1) springfield_db None) = Inr () \<and>
   closed (snd (get_session (\<lambda>s. delete_city s 1) springfield_db None)) \<and>
   trace (snd (get_session (\<lambda>s. delete_city s 1) springfield_db None)) = [Commit, Close] \<and>
   committed (snd (get_session (\<lambda>s. delete_city s 1) springfield_db None)) = empty_db"
proof -
  let ?dup = "\<lambda>s. create_city s ''Springfield'' (Some ''IL'') (Some ''US'')"
  let ?del = "\<lambda>s. delete_city s 1"
  have b1: "?dup (SessionLocal springfield_db None) =
      (Inl (IntegrityError (UNIQUE_failed ''cities.name, cities.state, cities.country'')),
       SessionLocal springfield_db None)"
    by (simp add: create_city_def session_flush_def insert_city_def strip_Springfield
        strip_or_None_IL_US uq_city_name_state_country_def SessionLocal_def
        springfield_db_def)
  have b2: "?del (SessionLocal springfield_db None) =
      (Inr (), (SessionLocal springfield_db None)
         \<lparr>deleted := \<lparr>del_cities = [1], del_neighborhoods = [1], del_streets = [1],
                       del_police_stations = [1]\<rparr>\<rparr>)"
    by (simp add: delete_city_def session_get_city_def session_delete_city_def
        SessionLocal_def springfield_db_def no_marks_def Let_def)
  have e1: "get_session ?dup springfield_db None =
      (fst (get_session ?dup springfield_db None), snd (get_session ?dup springfield_db None))"
    by simp
  have e2: "get_session ?del springfield_db None =
      (fst (get_session ?del springfield_db None), snd (get_session ?del springfield_db None))"
    by simp
  have c2: "rows (flush_deletes ((SessionLocal springfield_db None)
         \<lparr>deleted := \<lparr>del_cities = [1], del_neighborhoods = [1], del_streets = [1],
                       del_police_stations = [1]\<rparr>\<rparr>)) = empty_db"
    by (simp add: flush_deletes_def SessionLocal_def springfield_db_def empty_db_def
        delete_city_rows_def delete_police_station_rows_def delete_neighborhood_rows_def
        delete_street_rows_def Let_def)
  have d1: "snd (get_session ?dup springfield_db None) =
      (SessionLocal springfield_db None)\<lparr>closed := True, trace := [Rollback, Close]\<rparr>"
    by (simp add: get_session_def b1 session_close_def session_rollback_def)
       (simp add: SessionLocal_def)
  show ?thesis
    using get_session_contract[OF b1 e1] get_session_contract[OF b2 e2] c2 d1
    by (simp add: session_commit_def SessionLocal_def prod_eq_iff Let_def)
qed

section \<open>Claims C1 and C2: what deleting a city takes with it\<close>




lemma list_police_stations_subset:
  "set (fst (list_police_stations s flt)) \<subseteq> set (police_stations (rows s))"
  by (auto simp add: list_police_stations_def Let_def)








section \<open>Facts about identities and creation\<close>

lemma fold_max_init: "(x::int) \<le> fold max xs x"
proof (induction xs arbitrary: x)
  case Nil
  show ?case by simp
next
  case (Cons a xs)
  have "x \<le> max a x" by simp
  also have "\<dots> \<le> fold max xs (max a x)" by (rule Cons.IH)
  finally show ?case by simp
qed

lemma fold_max_mem: "y \<in> set xs \<Longrightarrow> y \<le> fold max xs (x::int)"
proof (induction xs arbitrary: x)
  case Nil
  then show ?case by simp
next
  case (Cons a xs)
  show ?case
  proof (cases "y = a")
    case True
    have "y \<le> max a x" using True by simp
    also have "\<dots> \<le> fold max xs (max a x)" by (rule fold_max_init)
    finally show ?thesis by simp
  next
    case False
    with Cons.prems have "y \<in> set xs" by simp
    then have "y \<le> fold max xs (max a x)" by (rule Cons.IH)
    then show ?thesis by simp
  qed
qed

lemma fold_max_ge: "y \<in> set (x # xs) \<Longrightarrow> y \<le> fold max xs (x::int)"
  using fold_max_init[of x xs] fold_max_mem[of y xs x] by auto

lemma next_rowid_fresh: "next_rowid ids \<notin> set ids"
proof (cases ids)
  case Nil
  then show ?thesis by simp
next
  case (Cons x xs)
  show ?thesis
  proof
    assume "next_rowid ids \<in> set ids"
    then have "fold max xs x + 1 \<le> fold max xs x"
      using fold_max_ge[of "next_rowid ids" x xs] Cons by (simp add: next_rowid_def)
    then show False by simp
  qed
qed

lemma session_flush_no_marks:
  "deleted s = no_marks \<Longrightarrow>
   session_flush s w =
     (case w (rows s) of
        Inl e \<Rightarrow> (Inl e, s\<lparr>rows := committed s\<rparr>)
      | Inr (obj, db) \<Rightarrow> (Inr obj, s\<lparr>rows := db\<rparr>))"
  by (simp add: session_flush_def flush_deletes_no_marks split: sum.splits prod.splits)

lemma strip_or_None_None: "strip_or_None None = None"
  by (simp add: strip_or_None_def or_empty_def or_None_def strip_def)

lemma create_city_ok:
  assumes "deleted s = no_marks"
    and "uq_city_name_state_country (rows s) None (strip nm) (strip_or_None st)
           (strip_or_None co)"
  shows "create_city s nm st co =
     (Inr \<lparr>City.id = next_rowid (map City.id (cities (rows s))), name = strip nm,
            state = strip_or_None st, country = strip_or_None co\<rparr>,
      s\<lparr>rows := (rows s)\<lparr>cities := cities (rows s) @
           [\<lparr>City.id = next_rowid (map City.id (cities (rows s))), name = strip nm,
             state = strip_or_None st, country = strip_or_None co\<rparr>]\<rparr>\<rparr>)"
  using assms by (simp add: create_city_def session_flush_no_marks insert_city_def Let_def)


lemma get_session_create_city:
  assumes "uq_city_name_state_country db None (strip nm) (strip_or_None st)
             (strip_or_None co)"
  shows "fst (get_session (\<lambda>s. create_city s nm st co) db None) =
     Inr \<lparr>City.id = next_rowid (map City.id (cities db)), name = strip nm,
           state = strip_or_None st, country = strip_or_None co\<rparr> \<and>
   committed (snd (get_session (\<lambda>s. create_city s nm st co) db None)) =
     db\<lparr>cities := cities db @
          [\<lparr>City.id = next_rowid (map City.id (cities db)), name = strip nm,
            state = strip_or_None st, country = strip_or_None co\<rparr>]\<rparr>"
proof -
  let ?s = "SessionLocal db None"
  have m: "deleted ?s = no_marks" by (simp add: SessionLocal_fields)
  have u: "uq_city_name_state_country (rows ?s) None (strip nm) (strip_or_None st)
      (strip_or_None co)"
    using assms by (simp add: SessionLocal_fields)
  note b = create_city_ok[OF m u]
  have f: "fault (snd (create_city ?s nm st co)) = None"
    by (simp add: b SessionLocal_fields)
  have d: "deleted (snd (create_city ?s nm st co)) = no_marks"
    by (simp add: b SessionLocal_fields)
  have e: "create_city ?s nm st co = (fst (create_city ?s nm st co), snd (create_city ?s nm st co))"
    by simp
  have r: "fst (create_city ?s nm st co) =
      Inr \<lparr>City.id = next_rowid (map City.id (cities db)), name = strip nm,
            state = strip_or_None st, country = strip_or_None co\<rparr>"
    by (simp add: b SessionLocal_fields)
  from get_session_commits[of "\<lambda>s. create_city s nm st co" db, OF e[unfolded r] f]
  show ?thesis
    by (simp add: flush_deletes_no_marks[OF d]) (simp add: b SessionLocal_fields)
qed

section \<open>Claim C10: cities without state and country do not collide\<close>

text \<open>
  C10. Whatever the database holds, creating a city with a name and no state and no
  country succeeds, and creating a second city with the same name and no state and no
  country succeeds too: the two rows are both in the committed database, with
  different identities. A NULL in a column of the uniqueness constraint never compares
  equal.
\<close>

theorem create_city_twice_without_state_country:
  "\<exists>c1 s1 c2 s2.
     get_session (\<lambda>s. create_city s nm None None) db None = (Inr c1, s1) \<and>
     get_session (\<lambda>s. create_city s nm None None) (committed s1) None = (Inr c2, s2) \<and>
     City.name c1 = strip nm \<and> City.state c1 = None \<and> City.country c1 = None \<and>
     City.name c2 = strip nm \<and> City.state c2 = None \<and> City.country c2 = None \<and>
     City.id c1 \<noteq> City.id c2 \<and>
     cities (committed s2) = cities db @ [c1, c2]"
proof -
  let ?c1 = "\<lparr>City.id = next_rowid (map City.id (cities db)), name = strip nm,
              state = None, country = None\<rparr>"
  let ?db1 = "db\<lparr>cities := cities db @ [?c1]\<rparr>"
  let ?c2 = "\<lparr>City.id = next_rowid (map City.id (cities ?db1)), name = strip nm,
              state = None, country = None\<rparr>"
  have u: "\<And>d. uq_city_name_state_country d None (strip nm) (strip_or_None None)
      (strip_or_None None)"
    by (simp add: uq_city_name_state_country_def strip_or_None_None)
  note g1 = get_session_create_city[OF u, of db, unfolded strip_or_None_None]
  note g2 = get_session_create_city[OF u, of ?db1, unfolded strip_or_None_None]
  have "City.id ?c2 \<noteq> City.id ?c1"
    using next_rowid_fresh[of "map City.id (cities ?db1)"] by auto
  then have ne: "City.id ?c1 \<noteq> City.id ?c2" by simp
  have "get_session (\<lambda>s. create_city s nm None None) db None =
      (Inr ?c1, snd (get_session (\<lambda>s. create_city s nm None None) db None))"
    using g1 by (simp add: prod_eq_iff)
  moreover have "get_session (\<lambda>s. create_city s nm None None)
        (committed (snd (get_session (\<lambda>s. create_city s nm None None) db None))) None =
      (Inr ?c2, snd (get_session (\<lambda>s. create_city s nm None None) ?db1 None))"
    using g1 g2 by (simp add: prod_eq_iff)
  moreover have "cities (committed (snd (get_session (\<lambda>s. create_city s nm None None)
      ?db1 None))) = cities db @ [?c1, ?c2]"
    using g2 by simp
  ultimately show ?thesis
    using ne by (intro exI[of _ ?c1] exI[of _ ?c2] exI conjI) simp_all
qed

theorem create_city_twice_without_state_country_witness:
  "get_session (\<lambda>s. create_city s ''Springfield'' None None) empty_db None =
     (Inr \<lparr>City.id = 1, name = ''Springfield'', state = None, country = None\<rparr>,
      \<lparr>rows = empty_db\<lparr>cities := [\<lparr>City.id = 1, name = ''Springfield'', state = None,
                                      country = None\<rparr>]\<rparr>,
       committed = empty_db\<lparr>cities := [\<lparr>City.id = 1, name = ''Springfield'', state = None,
                                           country = None\<rparr>]\<rparr>,
       deleted = no_marks, fault = None, closed = True, trace = [Commit, Close]\<rparr>) \<and>
   fst (get_session (\<lambda>s. create_city s ''Springfield'' None None)
          (empty_db\<lparr>cities := [\<lparr>City.id = 1, name = ''Springfield'', state = None,
                                  country = None\<rparr>]\<rparr>) None) =
     Inr \<lparr>City.id = 2, name = ''Springfield'', state = None, country = None\<rparr>"
proof -
  from create_city_twice_without_state_country[of "''Springfield''" empty_db]
  obtain c1 s1 c2 s2 where
    a: "get_session (\<lambda>s. create_city s ''Springfield'' None None) empty_db None = (Inr c1, s1)"
    and b: "get_session (\<lambda>s. create_city s ''Springfield'' None None) (committed s1) None
      = (Inr c2, s2)"
    by blast
  have e: "get_session (\<lambda>s. create_city s ''Springfield'' None None) empty_db None =
     (Inr \<lparr>City.id = 1, name = ''Springfield'', state = None, country = None\<rparr>,
      \<lparr>rows = empty_db\<lparr>cities := [\<lparr>City.id = 1, name = ''Springfield'', state = None,
                                      country = None\<rparr>]\<rparr>,
       committed = empty_db\<lparr>cities := [\<lparr>City.id = 1, name = ''Springfield'', state = None,
                                           country = None\<rparr>]\<rparr>,
       deleted = no_marks, fault = None, closed = True, trace = [Commit, Close]\<rparr>)"
    by (simp add: get_session_def create_city_def session_flush_def insert_city_def
        uq_city_name_state_country_def strip_Springfield strip_or_None_None SessionLocal_def
        empty_db_def next_rowid_def session_commit_def flush_deletes_def no_marks_def
        delete_city_rows_def delete_police_station_rows_def delete_neighborhood_rows_def
        delete_street_rows_def session_close_def Let_def)
  have "fst (get_session (\<lambda>s. create_city s ''Springfield'' None None)
          (empty_db\<lparr>cities := [\<lparr>City.id = 1, name = ''Springfield'', state = None,
                                  country = None\<rparr>]\<rparr>) None) =
     Inr \<lparr>City.id = 2, name = ''Springfield'', state = None, country = None\<rparr>"
    by (simp add: get_session_def create_city_def session_flush_def insert_city_def
        uq_city_name_state_country_def strip_Springfield strip_or_None_None SessionLocal_def
        empty_db_def next_rowid_def session_commit_def flush_deletes_def no_marks_def
        delete_city_rows_def delete_police_station_rows_def delete_neighborhood_rows_def
        delete_street_rows_def session_close_def Let_def)
  with e a b show ?thesis by simp
qed

section \<open>Claim C4: a second city with the same name, state and country\<close>





section \<open>Claim C9: identities\<close>






section \<open>Claim C5: normalisation of text fields\<close>

lemma strip_trimmed: "trimmed (strip s)"
proof (cases "strip s = []")
  case True
  then show ?thesis by (simp add: trimmed_def)
next
  case False
  let ?y = "dropWhile isspace s"
  let ?z = "dropWhile isspace (rev ?y)"
  have z: "?z \<noteq> []" using False by (simp add: strip_def)
  have y: "?y \<noteq> []"
  proof
    assume e: "?y = []"
    have "?z = []" unfolding e by simp
    with z show False by simp
  qed
  have "\<not> isspace (hd ?z)" using z by (rule hd_dropWhile)
  then have l: "\<not> isspace (last (strip s))"
    using z by (simp add: strip_def last_rev)
  have "rev ?y = takeWhile isspace (rev ?y) @ ?z" by simp
  then have "last (rev ?y) = last ?z" using z by (metis last_appendR)
  then have "last ?z = hd ?y" using y by (simp add: last_rev)
  moreover have "\<not> isspace (hd ?y)" using y by (rule hd_dropWhile)
  ultimately have "\<not> isspace (hd (strip s))"
    using z by (simp add: strip_def hd_rev)
  with l show ?thesis by (simp add: trimmed_def)
qed

lemma strip_or_None_normalised: "normalised_optional (strip_or_None v)"
  using strip_trimmed[of "or_empty v"]
  by (simp add: normalised_optional_def strip_or_None_def or_None_def)

lemma strip_blank: "strip ''   '' = []"
  by code_simp

text \<open>
  C5 as stated: a required field that is empty after trimming makes the operation raise
  a validation error before anything is written. The repository makes no such test (the
  dialogs of the GUI do): \<^verbatim>\<open>create_city\<close> with a blank name inserts a city whose name
  is the empty string.
\<close>

theorem blank_name_counterexample:
  "create_city (SessionLocal empty_db None) ''   '' None None =
     (Inr \<lparr>City.id = 1, name = [], state = None, country = None\<rparr>,
      \<lparr>rows = \<lparr>cities = [\<lparr>City.id = 1, name = [], state = None, country = None\<rparr>],
                neighborhoods = [], streets = [], police_stations = []\<rparr>,
       committed = empty_db, deleted = no_marks, fault = None, closed = False, trace = []\<rparr>)"
  by (simp add: create_city_def session_flush_def insert_city_def
      uq_city_name_state_country_def strip_blank strip_or_None_None SessionLocal_def
      empty_db_def next_rowid_def flush_deletes_def no_marks_def delete_city_rows_def
      delete_police_station_rows_def delete_neighborhood_rows_def delete_street_rows_def
      Let_def)

text \<open>
  C5, amended. For each create and update operation of each entity type, the entity of a
  successful operation has every text field normalised: the name is the given name
  trimmed, and each optional text is the given text trimmed, absent when that is empty.
  With no deletion pending, that entity is the row stored. No operation tests the name:
  with state and country absent, \<^verbatim>\<open>create_city\<close> succeeds for every name, a blank one
  included, which it stores as the empty string.
\<close>

theorem text_fields_normalised:
  "(create_city s nm st co = (Inr c, s') \<longrightarrow>
      City.name c = strip nm \<and> trimmed (City.name c) \<and>
      City.state c = strip_or_None st \<and> normalised_optional (City.state c) \<and>
      City.country c = strip_or_None co \<and> normalised_optional (City.country c) \<and>
      (deleted s = no_marks \<longrightarrow> c \<in> set (cities (rows s')))) \<and>
   (update_city s i nm st co = (Inr c, s') \<longrightarrow>
      City.name c = strip nm \<and> trimmed (City.name c) \<and>
      City.state c = strip_or_None st \<and> normalised_optional (City.state c) \<and>
      City.country c = strip_or_None co \<and> normalised_optional (City.country c) \<and>
      (deleted s = no_marks \<longrightarrow> c \<in> set (cities (rows s')))) \<and>
   (create_neighborhood s nm cid = (Inr n, s') \<longrightarrow>
      Neighborhood.name n = strip nm \<and> trimmed (Neighborhood.name n) \<and>
      (deleted s = no_marks \<longrightarrow> n \<in> set (neighborhoods (rows s')))) \<and>
   (update_neighborhood s i nm cid = (Inr n, s') \<longrightarrow>
      Neighborhood.name n = strip nm \<and> trimmed (Neighborhood.name n) \<and>
      (deleted s = no_marks \<longrightarrow> n \<in> set (neighborhoods (rows s')))) \<and>
   (create_street s nm nid = (Inr t, s') \<longrightarrow>
      Street.name t = strip nm \<and> trimmed (Street.name t) \<and>
      (deleted s = no_marks \<longrightarrow> t \<in> set (streets (rows s')))) \<and>
   (update_street s i nm nid = (Inr t, s') \<longrightarrow>
      Street.name t = strip nm \<and> trimmed (Street.name t) \<and>
      (deleted s = no_marks \<longrightarrow> t \<in> set (streets (rows s')))) \<and>
   (create_police_station s nm pcid addr = (Inr p, s') \<longrightarrow>
      PoliceStation.name p = strip nm \<and> trimmed (PoliceStation.name p) \<and>
      PoliceStation.address p = strip_or_None addr \<and>
      normalised_optional (PoliceStation.address p) \<and>
      (deleted s = no_marks \<longrightarrow> p \<in> set (police_stations (rows s')))) \<and>
   (update_police_station s i nm pcid addr = (Inr p, s') \<longrightarrow>
      PoliceStation.name p = strip nm \<and> trimmed (PoliceStation.name p) \<and>
      PoliceStation.address p = strip_or_None addr \<and>
      normalised_optional (PoliceStation.address p) \<and>
      (deleted s = no_marks \<longrightarrow> p \<in> set (police_stations (rows s')))) \<and>
   (deleted s = no_marks \<longrightarrow>
      fst (create_city s nm None None) =
        Inr \<lparr>City.id = next_rowid (map City.id (cities (rows s))), name = strip nm,
              state = None, country = None\<rparr>)"
proof -
  note [simp] = strip_trimmed strip_or_None_normalised
  have c1: "create_city s nm st co = (Inr c, s') \<longrightarrow>
      City.name c = strip nm \<and> trimmed (City.name c) \<and>
      City.state c = strip_or_None st \<and> normalised_optional (City.state c) \<and>
      City.country c = strip_or_None co \<and> normalised_optional (City.country c) \<and>
      (deleted s = no_marks \<longrightarrow> c \<in> set (cities (rows s')))"
    by (auto simp add: create_city_def session_flush_def insert_city_def Let_def
        flush_deletes_no_marks split: if_splits)
  have u1: "update_city s i nm st co = (Inr c, s') \<longrightarrow>
      City.name c = strip nm \<and> trimmed (City.name c) \<and>
      City.state c = strip_or_None st \<and> normalised_optional (City.state c) \<and>
      City.country c = strip_or_None co \<and> normalised_optional (City.country c) \<and>
      (deleted s = no_marks \<longrightarrow> c \<in> set (cities (rows s')))"
    by (auto simp add: update_city_def session_get_city_def session_flush_def
        update_city_row_def flush_deletes_no_marks image_iff
        split: option.splits if_splits dest!: find_Some_holds)
  have c2: "create_neighborhood s nm cid = (Inr n, s') \<longrightarrow>
      Neighborhood.name n = strip nm \<and> trimmed (Neighborhood.name n) \<and>
      (deleted s = no_marks \<longrightarrow> n \<in> set (neighborhoods (rows s')))"
    by (auto simp add: create_neighborhood_def session_flush_def insert_neighborhood_def
        Let_def flush_deletes_no_marks split: if_splits)
  have u2: "update_neighborhood s i nm cid = (Inr n, s') \<longrightarrow>
      Neighborhood.name n = strip nm \<and> trimmed (Neighborhood.name n) \<and>
      (deleted s = no_marks \<longrightarrow> n \<in> set (neighborhoods (rows s')))"
    by (auto simp add: update_neighborhood_def session_get_neighborhood_def
        session_flush_def update_neighborhood_row_def flush_deletes_no_marks image_iff
        split: option.splits if_splits dest!: find_Some_holds)
  have c3: "create_street s nm nid = (Inr t, s') \<longrightarrow>
      Street.name t = strip nm \<and> trimmed (Street.name t) \<and>
      (deleted s = no_marks \<longrightarrow> t \<in> set (streets (rows s')))"
    by (auto simp add: create_street_def session_flush_def insert_street_def Let_def
        flush_deletes_no_marks split: if_splits)
  have u3: "update_street s i nm nid = (Inr t, s') \<longrightarrow>
      Street.name t = strip nm \<and> trimmed (Street.name t) \<and>
      (deleted s = no_marks \<longrightarrow> t \<in> set (streets (rows s')))"
    by (auto simp add: update_street_def session_get_street_def session_flush_def
        update_street_row_def flush_deletes_no_marks image_iff
        split: option.splits if_splits dest!: find_Some_holds)
  have c4: "create_police_station s nm pcid addr = (Inr p, s') \<longrightarrow>
      PoliceStation.name p = strip nm \<and> trimmed (PoliceStation.name p) \<and>
      PoliceStation.address p = strip_or_None addr \<and>
      normalised_optional (PoliceStation.address p) \<and>
      (deleted s = no_marks \<longrightarrow> p \<in> set (police_stations (rows s')))"
    by (auto simp add: create_police_station_def session_flush_def
        insert_police_station_def Let_def flush_deletes_no_marks split: if_splits)
  have u4: "update_police_station s i nm pcid addr = (Inr p, s') \<longrightarrow>
      PoliceStation.name p = strip nm \<and> trimmed (PoliceStation.name p) \<and>
      PoliceStation.address p = strip_or_None addr \<and>
      normalised_optional (PoliceStation.address p) \<and>
      (deleted s = no_marks \<longrightarrow> p \<in> set (police_stations (rows s')))"
    by (auto simp add: update_police_station_def session_get_police_station_def
        session_flush_def update_police_station_row_def flush_deletes_no_marks image_iff
        split: option.splits if_splits dest!: find_Some_holds)
  have b: "deleted s = no_marks \<longrightarrow>
      fst (create_city s nm None None) =
        Inr \<lparr>City.id = next_rowid (map City.id (cities (rows s))), name = strip nm,
              state = None, country = None\<rparr>"
    by (simp add: create_city_def session_flush_def insert_city_def Let_def
        uq_city_name_state_country_def strip_or_None_None)
  show ?thesis
    by (intro conjI c1 u1 c2 u2 c3 u3 c4 u4 b)
qed

lemma strip_North: "strip ''  North  '' = ''North''"
  by code_simp

lemma strip_or_None_blank: "strip_or_None (Some ''   '') = None"
  by code_simp

theorem text_fields_normalised_witness:
  "fst (create_police_station (SessionLocal springfield_db None) ''  North  '' None
          (Some ''   '')) =
     Inr \<lparr>PoliceStation.id = 2, name = ''North'', city_id = None, address = None\<rparr> \<and>
   trimmed ''North'' \<and>
   normalised_optional (strip_or_None (Some ''   '')) \<and>
   \<lparr>PoliceStation.id = 2, name = ''North'', city_id = None, address = None\<rparr> \<in>
     set (police_stations (rows (snd (create_police_station
       (SessionLocal springfield_db None) ''  North  '' None (Some ''   '')))))"
proof -
  let ?s = "SessionLocal springfield_db None"
  let ?p = "\<lparr>PoliceStation.id = 2, name = ''North'', city_id = None, address = None\<rparr>"
  let ?r = "create_police_station ?s ''  North  '' None (Some ''   '')"
  have m: "deleted ?s = no_marks"
    by (simp add: SessionLocal_fields)
  have a': "fst ?r = Inr ?p"
    by (simp add: create_police_station_def session_flush_def insert_police_station_def
        uq_police_station_name_city_def fk_city_opt_def strip_North strip_or_None_blank
        SessionLocal_def springfield_db_def next_rowid_def Let_def)
  have a: "?r = (Inr ?p, snd ?r)"
    using a' by (simp add: prod_eq_iff)
  note t = text_fields_normalised[where s = ?s and nm = "''  North  ''" and pcid = None
      and addr = "Some ''   ''" and p = ?p and s' = "snd ?r",
      THEN conjunct2, THEN conjunct2, THEN conjunct2, THEN conjunct2, THEN conjunct2,
      THEN conjunct2, THEN conjunct1, THEN mp, OF a]
  show ?thesis
    using a' t m by (simp add: strip_or_None_blank strip_North)
qed

section \<open>Claim C7: the parent filter of the list operations\<close>

lemma set_list_neighborhoods:
  "set (fst (list_neighborhoods s flt)) =
     (if truthy flt
      then {n \<in> set (neighborhoods (rows s)). Some (Neighborhood.city_id n) = flt}
      else set (neighborhoods (rows s)))"
  by (simp add: list_neighborhoods_def Let_def)

lemma set_list_streets:
  "set (fst (list_streets s flt)) =
     (if truthy flt
      then {t \<in> set (streets (rows s)). Some (Street.neighborhood_id t) = flt}
      else set (streets (rows s)))"
  by (simp add: list_streets_def Let_def)

lemma set_list_police_stations:
  "set (fst (list_police_stations s flt)) =
     (if truthy flt
      then {p \<in> set (police_stations (rows s)). PoliceStation.city_id p = flt}
      else set (police_stations (rows s)))"
  by (simp add: list_police_stations_def Let_def)

text \<open>
  C7 says that a filter value that is present and matches no stored parent reference
  gives the empty sequence. The three list operations test the filter with
  \<^verbatim>\<open>if city_id:\<close> (\<^verbatim>\<open>if neighborhood_id:\<close>), and 0 is falsy: with the filter 0,
  which no row of the example database has as parent, each of them returns every row
  instead of none. With the filter 2, which no row has either, they return none.
\<close>

theorem list_filter_zero_returns_all:
  "fst (list_neighborhoods (SessionLocal springfield_db None) (Some 0)) =
     [\<lparr>Neighborhood.id = 1, name = ''Downtown'', city_id = 1\<rparr>] \<and>
   fst (list_streets (SessionLocal springfield_db None) (Some 0)) =
     [\<lparr>Street.id = 1, name = ''Main'', neighborhood_id = 1\<rparr>] \<and>
   fst (list_police_stations (SessionLocal springfield_db None) (Some 0)) =
     [\<lparr>PoliceStation.id = 1, name = ''Central'', city_id = Some 1, address = None\<rparr>] \<and>
   fst (list_neighborhoods (SessionLocal springfield_db None) (Some 2)) = [] \<and>
   fst (list_streets (SessionLocal springfield_db None) (Some 2)) = [] \<and>
   fst (list_police_stations (SessionLocal springfield_db None) (Some 2)) = []"
  by (simp add: list_neighborhoods_def list_streets_def list_police_stations_def
      truthy_def SessionLocal_def springfield_db_def Let_def)

section \<open>Claim C8: the integrity translator\<close>

text \<open>
  C8 as stated: the \<^verbatim>\<open>DuplicateError\<close> discards the detail of the storage engine's
  error. It is built as \<^verbatim>\<open>DuplicateError(str(e))\<close>, so its content is the engine's
  text: two uniqueness failures on different constraints give two different
  \<^verbatim>\<open>DuplicateError\<close>s.
\<close>

theorem duplicate_error_keeps_detail_counterexample:
  "fst (commit_with_integrity_handling
          (SessionLocal empty_db
             (Some (IntegrityError
                (UNIQUE_failed ''cities.name, cities.state, cities.country''))))) =
     Inl (DuplicateError
       ''(sqlite3.IntegrityError) UNIQUE constraint failed: cities.name, cities.state, cities.country'') \<and>
   fst (commit_with_integrity_handling
          (SessionLocal empty_db
             (Some (IntegrityError
                (UNIQUE_failed ''cities.name, cities.state, cities.country''))))) \<noteq>
   fst (commit_with_integrity_handling
          (SessionLocal empty_db
             (Some (IntegrityError (UNIQUE_failed ''streets.name, streets.neighborhood_id'')))))"
  by (simp add: commit_with_integrity_handling_def session_commit_def SessionLocal_def)

text \<open>
  C8, amended. When the commit succeeds the translator returns normally. When the commit
  raises the \<^verbatim>\<open>IntegrityError\<close> of a uniqueness constraint, the translator rolls the
  session back and raises a \<^verbatim>\<open>DuplicateError\<close> whose content is the text of that
  error. When the commit raises a failure that is not an \<^verbatim>\<open>IntegrityError\<close>, the
  caller gets that failure unchanged and the translator does nothing else.
\<close>

theorem commit_with_integrity_handling_translates:
  "(fst (session_commit s) = None \<longrightarrow>
      commit_with_integrity_handling s = (Inr (), snd (session_commit s))) \<and>
   (fst (session_commit s) = Some (IntegrityError (UNIQUE_failed cols)) \<longrightarrow>
      commit_with_integrity_handling s =
        (Inl (DuplicateError (str_exn (IntegrityError (UNIQUE_failed cols)))),
         session_rollback (snd (session_commit s))) \<and>
      str_exn (IntegrityError (UNIQUE_failed cols)) =
        ''(sqlite3.IntegrityError) UNIQUE constraint failed: '' @ cols) \<and>
   (fst (session_commit s) = Some e \<and> \<not> is_IntegrityError e \<longrightarrow>
      commit_with_integrity_handling s = (Inl e, snd (session_commit s)))"
  by (auto simp add: commit_with_integrity_handling_def split: prod.splits option.splits)

theorem commit_with_integrity_handling_translates_witness:
  "fst (session_commit (SessionLocal empty_db (Some (OperationalError ''disk I/O error'')))) =
     Some (OperationalError ''disk I/O error'') \<and>
   \<not> is_IntegrityError (OperationalError ''disk I/O error'') \<and>
   commit_with_integrity_handling
     (SessionLocal empty_db (Some (OperationalError ''disk I/O error''))) =
     (Inl (OperationalError ''disk I/O error''),
      SessionLocal empty_db (Some (OperationalError ''disk I/O error''))) \<and>
   commit_with_integrity_handling
     (SessionLocal empty_db
        (Some (IntegrityError (UNIQUE_failed ''cities.name, cities.state, cities.country'')))) =
     (Inl (DuplicateError
        ''(sqlite3.IntegrityError) UNIQUE constraint failed: cities.name, cities.state, cities.country''),
      (SessionLocal empty_db
        (Some (IntegrityError (UNIQUE_failed ''cities.name, cities.state, cities.country''))))
      \<lparr>trace := [Rollback]\<rparr>)"
proof -
  let ?o = "OperationalError ''disk I/O error''"
  let ?u = "IntegrityError (UNIQUE_failed ''cities.name, cities.state, cities.country'')"
  have c1: "session_commit (SessionLocal empty_db (Some ?o)) =
      (Some ?o, SessionLocal empty_db (Some ?o))"
    by (simp add: session_commit_def SessionLocal_def)
  have c2: "session_commit (SessionLocal empty_db (Some ?u)) =
      (Some ?u, SessionLocal empty_db (Some ?u))"
    by (simp add: session_commit_def SessionLocal_def)
  have r: "session_rollback (SessionLocal empty_db (Some ?u)) =
      (SessionLocal empty_db (Some ?u))\<lparr>trace := [Rollback]\<rparr>"
    by (simp add: session_rollback_def SessionLocal_def)
  show ?thesis
    using commit_with_integrity_handling_translates[of "SessionLocal empty_db (Some ?o)"
        "''''" ?o]
      commit_with_integrity_handling_translates[of "SessionLocal empty_db (Some ?u)"
        "''cities.name, cities.state, cities.country''" ?o]
    by (simp add: c1 c2 r)
qed

end
